theory Spec2Isabelle
  imports Complex_Main "HOL-Library.Sublist"
begin

section \<open>Python strings\<close>

text \<open>
  A string is a list of characters with code points below 256 (ASCII and Latin-1);
  Python strings with other code points are outside the type. \<open>lower\<close> is
  \<^verbatim>\<open>str.lower()\<close>, \<open>strip\<close> is \<^verbatim>\<open>str.strip()\<close> and
  \<open>contains w text\<close> is \<^verbatim>\<open>w in text\<close> (the substring test).
\<close>

text \<open>The characters that \<^verbatim>\<open>str.lower()\<close> changes, and what it makes of them.\<close>

definition upper_chars :: string where
  "upper_chars = ''ABCDEFGHIJKLMNOPQRSTUVWXYZ'' @
     [CHR 0xC0, CHR 0xC1, CHR 0xC2, CHR 0xC3, CHR 0xC4, CHR 0xC5, CHR 0xC6, CHR 0xC7,
      CHR 0xC8, CHR 0xC9, CHR 0xCA, CHR 0xCB, CHR 0xCC, CHR 0xCD, CHR 0xCE, CHR 0xCF,
      CHR 0xD0, CHR 0xD1, CHR 0xD2, CHR 0xD3, CHR 0xD4, CHR 0xD5, CHR 0xD6, CHR 0xD8,
      CHR 0xD9, CHR 0xDA, CHR 0xDB, CHR 0xDC, CHR 0xDD, CHR 0xDE]"

definition lower_chars :: string where
  "lower_chars = ''abcdefghijklmnopqrstuvwxyz'' @
     [CHR 0xE0, CHR 0xE1, CHR 0xE2, CHR 0xE3, CHR 0xE4, CHR 0xE5, CHR 0xE6, CHR 0xE7,
      CHR 0xE8, CHR 0xE9, CHR 0xEA, CHR 0xEB, CHR 0xEC, CHR 0xED, CHR 0xEE, CHR 0xEF,
      CHR 0xF0, CHR 0xF1, CHR 0xF2, CHR 0xF3, CHR 0xF4, CHR 0xF5, CHR 0xF6, CHR 0xF8,
      CHR 0xF9, CHR 0xFA, CHR 0xFB, CHR 0xFC, CHR 0xFD, CHR 0xFE]"

definition char_lower :: "char \<Rightarrow> char" where
  "char_lower c = (case map_of (zip upper_chars lower_chars) c of Some d \<Rightarrow> d | None \<Rightarrow> c)"

definition lower :: "string \<Rightarrow> string" where
  "lower s = map char_lower s"

text \<open>The characters for which \<^verbatim>\<open>str.isspace()\<close> holds.\<close>

definition is_space :: "char \<Rightarrow> bool" where
  "is_space c = (c \<in> set [CHR '' '', CHR 0x09, CHR 0x0A, CHR 0x0B, CHR 0x0C, CHR 0x0D,
                            CHR 0x1C, CHR 0x1D, CHR 0x1E, CHR 0x1F, CHR 0x85, CHR 0xA0])"

definition strip :: "string \<Rightarrow> string" where
  "strip s = rev (dropWhile is_space (rev (dropWhile is_space s)))"

definition contains :: "string \<Rightarrow> string \<Rightarrow> bool" where
  "contains w text = sublist w text"

section \<open>Tasks (models.py)\<close>

text \<open>
  Timestamps are seconds since the epoch. \<open>pyval\<close> is a value of a JSON field or
  a parsed JSON reply. A task refers to its owner by key; its many-to-many link to
  context entries is not written by any operation below and is left out.
\<close>

type_synonym datetime = int
  \<comment> \<open>seconds since the epoch\<close>

definition timedelta_days :: "int \<Rightarrow> int" where
  "timedelta_days d = d * 86400"

datatype status = Pending | InProgress | Completed | Cancelled

datatype priority = Low | Medium | High | Urgent

datatype pyval =
    PNone
  | PBool bool
  | PNum real
  | PStr string
  | PList "pyval list"
  | PDict "(string \<times> pyval) list"

record category =
  name :: string
  color :: string
  usage_frequency :: int

record task =
  title :: string
  description :: "string option"
  status :: status
  priority :: priority
  priority_score :: real
  due_date :: "datetime option"
  suggested_deadline :: "datetime option"
  task_category :: "category option"
  tags :: pyval
  ai_enhanced_description :: "string option"
  created_at :: datetime
  updated_at :: datetime
  completed_at :: "datetime option"
  user :: nat

section \<open>Status changes (views.py, serializers.py)\<close>

text \<open>
  \<^verbatim>\<open>Task.save()\<close> has no override; the only field it writes by itself is
  \<open>updated_at\<close> (\<^verbatim>\<open>auto_now=True\<close>).
\<close>

definition save :: "datetime \<Rightarrow> task \<Rightarrow> task" where
  "save now t = t\<lparr>updated_at := now\<rparr>"

text \<open>The body of \<^verbatim>\<open>TaskViewSet.toggle_status\<close> on the task it fetched.\<close>

definition toggle_status_task :: "datetime \<Rightarrow> task \<Rightarrow> task" where
  "toggle_status_task now t =
     save now
       (if status t = Pending then t\<lparr>status := Completed\<rparr>
        else if status t = Completed then t\<lparr>status := Pending\<rparr>
        else t)"

datatype http_error = Http404

text \<open>
  \<^verbatim>\<open>get_object\<close> looks the primary key up among the tasks of the requesting
  user (\<^verbatim>\<open>get_queryset\<close>) and answers 404 otherwise.
\<close>

definition get_object :: "nat \<Rightarrow> (nat \<rightharpoonup> task) \<Rightarrow> nat \<Rightarrow> http_error + task" where
  "get_object u db pk =
     (case db pk of
        None \<Rightarrow> Inl Http404
      | Some t \<Rightarrow> if user t = u then Inr t else Inl Http404)"

definition toggle_status ::
  "nat \<Rightarrow> datetime \<Rightarrow> (nat \<rightharpoonup> task) \<Rightarrow> nat \<Rightarrow> http_error + ((nat \<rightharpoonup> task) \<times> task)" where
  "toggle_status u now db pk =
     (case get_object u db pk of
        Inl e \<Rightarrow> Inl e
      | Inr t \<Rightarrow> (let t' = toggle_status_task now t in Inr (db(pk \<mapsto> t'), t')))"

text \<open>
  \<^verbatim>\<open>TaskSerializer.update\<close>: \<open>new_status\<close> is the \<^verbatim>\<open>status\<close> entry of
  the validated data, if there is one; the other writable fields are left out here.
\<close>

definition update :: "datetime \<Rightarrow> task \<Rightarrow> status option \<Rightarrow> task" where
  "update now instance new_status =
     save now
       (case new_status of
          None \<Rightarrow> instance
        | Some s \<Rightarrow>
            if s = Completed then instance\<lparr>status := s, completed_at := Some now\<rparr>
            else instance\<lparr>status := s, completed_at := None\<rparr>)"

definition completed_at_invariant :: "task \<Rightarrow> bool" where
  "completed_at_invariant t = ((completed_at t \<noteq> None) = (status t = Completed))"

section \<open>The external completion service (ai\_module.py)\<close>

text \<open>
  \<^verbatim>\<open>_call_ai_api\<close>: without an API key there is no call at all. Otherwise the
  request either raises (network failure, timeout, a body of the wrong shape) or is
  answered with a status code and a completion text; every outcome but status 200
  is \<open>None\<close>.
\<close>

datatype http_outcome = Raised | Answered int string

definition call_ai_api :: "string option \<Rightarrow> http_outcome \<Rightarrow> string option" where
  "call_ai_api api_key outcome =
     (case api_key of
        None \<Rightarrow> None
      | Some k \<Rightarrow>
          if k = [] then None
          else (case outcome of
                  Raised \<Rightarrow> None
                | Answered status_code content \<Rightarrow>
                    if status_code = 200 then Some content else None))"

text \<open>
  Each operation below calls the service once; its parameter \<open>response\<close> is the
  value of \<^verbatim>\<open>self._call_ai_api(prompt)\<close>. The prompt text only reaches the
  service, so it is not built here. Python's \<^verbatim>\<open>float\<close>,
  \<^verbatim>\<open>datetime.strptime(_, "%Y-%m-%d %H:%M")\<close> and \<^verbatim>\<open>json.loads\<close> are
  parameters; \<open>None\<close> stands for the exception they raise on a malformed text.
  Floats are read as reals (the finite results of \<^verbatim>\<open>float\<close>).
\<close>

definition fstr :: "string option \<Rightarrow> string" where
  "fstr v = (case v of None \<Rightarrow> ''None'' | Some s \<Rightarrow> s)"

definition urgency_words :: "string list" where
  "urgency_words = [''urgent'', ''asap'', ''immediately'', ''deadline'', ''due'',
                    ''important'', ''critical'', ''emergency'']"

definition urgency_count :: "string \<Rightarrow> nat" where
  "urgency_count text = sum_list (map (\<lambda>word. 1) (filter (\<lambda>word. contains word text) urgency_words))"

definition fallback_priority_calculation :: "string \<Rightarrow> string option \<Rightarrow> real" where
  "fallback_priority_calculation ttl descr =
     (let text = lower (ttl @ '' '' @ fstr descr) in
      if urgency_count text \<ge> 2 then 9 / 10
      else if urgency_count text = 1 then 7 / 10
      else 5 / 10)"

definition prioritize_task ::
  "(string \<Rightarrow> real option) \<Rightarrow> string option \<Rightarrow> string \<Rightarrow> string option \<Rightarrow> real" where
  "prioritize_task to_float response ttl descr =
     (case response of
        None \<Rightarrow> fallback_priority_calculation ttl descr
      | Some r \<Rightarrow>
          if r = [] then fallback_priority_calculation ttl descr
          else (case to_float (strip r) of
                  Some x \<Rightarrow> x
                | None \<Rightarrow> fallback_priority_calculation ttl descr))"

definition fallback_deadline_suggestion :: "datetime \<Rightarrow> string \<Rightarrow> int \<Rightarrow> datetime option" where
  "fallback_deadline_suggestion now ttl workload =
     (let days_to_add = min (workload + 1) 7 in Some (now + timedelta_days days_to_add))"

definition suggest_deadline ::
  "(string \<Rightarrow> datetime option) \<Rightarrow> datetime \<Rightarrow> string option \<Rightarrow> string \<Rightarrow> string option \<Rightarrow> int
     \<Rightarrow> datetime option" where
  "suggest_deadline strptime now response ttl descr current_workload =
     (case response of
        None \<Rightarrow> None
      | Some r \<Rightarrow>
          if r \<noteq> [] \<and> lower (strip r) \<noteq> ''none'' then
            (case strptime (strip r) of
               Some d \<Rightarrow> Some d
             | None \<Rightarrow> fallback_deadline_suggestion now ttl current_workload)
          else None)"

definition work_words :: "string list" where
  "work_words = [''work'', ''job'', ''office'', ''meeting'', ''project'']"

definition home_words :: "string list" where
  "home_words = [''home'', ''house'', ''clean'', ''cook'', ''garden'']"

definition health_words :: "string list" where
  "health_words = [''health'', ''exercise'', ''gym'', ''doctor'', ''medical'']"

definition learning_words :: "string list" where
  "learning_words = [''learn'', ''study'', ''course'', ''book'', ''read'']"

text \<open>\<^verbatim>\<open>any(word in text for word in ws)\<close>\<close>

definition any_word_in :: "string list \<Rightarrow> string \<Rightarrow> bool" where
  "any_word_in ws text = list_ex (\<lambda>word. contains word text) ws"

definition fallback_categorization :: "string \<Rightarrow> string \<times> string list" where
  "fallback_categorization ttl =
     (let title_lower = lower ttl in
      if any_word_in work_words title_lower then (''Work'', [''work'', ''professional''])
      else if any_word_in home_words title_lower then (''Home'', [''home'', ''household''])
      else if any_word_in health_words title_lower then (''Health'', [''health'', ''wellness''])
      else if any_word_in learning_words title_lower
      then (''Learning'', [''learning'', ''education''])
      else (''Personal'', [''personal'', ''general'']))"

definition py_get :: "(string \<times> pyval) list \<Rightarrow> string \<Rightarrow> pyval \<Rightarrow> pyval" where
  "py_get kvs k dflt = (case map_of kvs k of Some v \<Rightarrow> v | None \<Rightarrow> dflt)"

definition categorization_value :: "string \<times> string list \<Rightarrow> pyval \<times> pyval" where
  "categorization_value p = (PStr (fst p), PList (map PStr (snd p)))"

text \<open>
  A reply that is JSON but no object makes \<^verbatim>\<open>result.get\<close> raise
  AttributeError, which the outer \<^verbatim>\<open>except Exception\<close> turns into the fallback.
\<close>

definition suggest_categories_and_tags ::
  "(string \<Rightarrow> pyval option) \<Rightarrow> string option \<Rightarrow> string \<Rightarrow> string option \<Rightarrow> pyval \<times> pyval" where
  "suggest_categories_and_tags loads response ttl descr =
     (case response of
        None \<Rightarrow> categorization_value (fallback_categorization ttl)
      | Some r \<Rightarrow>
          if r = [] then categorization_value (fallback_categorization ttl)
          else (case loads r of
                  None \<Rightarrow> categorization_value (fallback_categorization ttl)
                | Some (PDict kvs) \<Rightarrow>
                    (py_get kvs ''category'' (PStr ''General''), py_get kvs ''tags'' (PList []))
                | Some _ \<Rightarrow> categorization_value (fallback_categorization ttl)))"

definition fallback_description_enhancement :: "string \<Rightarrow> string option \<Rightarrow> string" where
  "fallback_description_enhancement ttl descr =
     (case descr of
        Some d \<Rightarrow> if d \<noteq> [] then d else ''Task: '' @ ttl @ ''. Please add more details as needed.''
      | None \<Rightarrow> ''Task: '' @ ttl @ ''. Please add more details as needed.'')"

definition enhance_task_description :: "string option \<Rightarrow> string \<Rightarrow> string option \<Rightarrow> string" where
  "enhance_task_description response ttl descr =
     (case response of
        None \<Rightarrow> fallback_description_enhancement ttl descr
      | Some r \<Rightarrow> if r = [] then fallback_description_enhancement ttl descr else strip r)"

subsection \<open>Context analysis\<close>

text \<open>
  The characters that \<^verbatim>\<open>\w\<close> matches in a \<^verbatim>\<open>str\<close> pattern:
  letters, digits and other numeric characters, and the underscore.
\<close>

definition is_word_char :: "char \<Rightarrow> bool" where
  "is_word_char c =
     (c \<in> set (''abcdefghijklmnopqrstuvwxyzABCDEFGHIJKLMNOPQRSTUVWXYZ0123456789_'' @
        [CHR 0xAA, CHR 0xB2, CHR 0xB3, CHR 0xB5, CHR 0xB9, CHR 0xBA, CHR 0xBC, CHR 0xBD,
         CHR 0xBE, CHR 0xC0, CHR 0xC1, CHR 0xC2, CHR 0xC3, CHR 0xC4, CHR 0xC5, CHR 0xC6,
         CHR 0xC7, CHR 0xC8, CHR 0xC9, CHR 0xCA, CHR 0xCB, CHR 0xCC, CHR 0xCD, CHR 0xCE,
         CHR 0xCF, CHR 0xD0, CHR 0xD1, CHR 0xD2, CHR 0xD3, CHR 0xD4, CHR 0xD5, CHR 0xD6,
         CHR 0xD8, CHR 0xD9, CHR 0xDA, CHR 0xDB, CHR 0xDC, CHR 0xDD, CHR 0xDE, CHR 0xDF,
         CHR 0xE0, CHR 0xE1, CHR 0xE2, CHR 0xE3, CHR 0xE4, CHR 0xE5, CHR 0xE6, CHR 0xE7,
         CHR 0xE8, CHR 0xE9, CHR 0xEA, CHR 0xEB, CHR 0xEC, CHR 0xED, CHR 0xEE, CHR 0xEF,
         CHR 0xF0, CHR 0xF1, CHR 0xF2, CHR 0xF3, CHR 0xF4, CHR 0xF5, CHR 0xF6, CHR 0xF8,
         CHR 0xF9, CHR 0xFA, CHR 0xFB, CHR 0xFC, CHR 0xFD, CHR 0xFE, CHR 0xFF]))"

text \<open>
  \<^verbatim>\<open>re.findall(r'\b\w{4,}\b', text)\<close>: between two word boundaries the greedy
  \<^verbatim>\<open>\w{4,}\<close> can only match a whole maximal run of word characters, so the
  matches are the maximal runs of length at least 4, from left to right.
\<close>

function word_runs :: "string \<Rightarrow> string list" where
  "word_runs [] = []"
| "word_runs (c # cs) =
     (if is_word_char c
      then takeWhile is_word_char (c # cs) # word_runs (dropWhile is_word_char cs)
      else word_runs cs)"
  by pat_completeness auto
termination
  by (relation "measure length") (auto simp: less_Suc_eq_le length_dropWhile_le)

definition findall_words4 :: "string \<Rightarrow> string list" where
  "findall_words4 text = filter (\<lambda>w. 4 \<le> length w) (word_runs text)"

definition stop_words :: "string list" where
  "stop_words = [''this'', ''that'', ''with'', ''from'', ''they'', ''have'', ''will'',
                 ''been'', ''were'']"

definition context_urgency_words :: "string list" where
  "context_urgency_words = [''urgent'', ''asap'', ''immediately'', ''deadline'', ''due'',
                            ''important'', ''critical'']"

definition context_keywords :: "string \<Rightarrow> string list" where
  "context_keywords context_text =
     filter (\<lambda>k. k \<notin> set stop_words) (findall_words4 (lower context_text))"

definition urgency_score :: "string \<Rightarrow> nat" where
  "urgency_score context_text =
     sum_list (map (\<lambda>word. 1)
       (filter (\<lambda>word. contains word (lower context_text)) context_urgency_words))"

definition fallback_context_analysis :: "string \<Rightarrow> pyval" where
  "fallback_context_analysis context_text =
     PDict [(''topics'', PList (map PStr (take 5 (context_keywords context_text)))),
            (''deadlines'', PList []),
            (''priorities'',
               PList [PStr (if urgency_score context_text > 0 then ''high'' else ''normal'')]),
            (''sentiment'', PStr ''neutral''),
            (''action_items'', PList []),
            (''keywords'', PList (map PStr (take 10 (context_keywords context_text))))]"

definition analyze_context ::
  "(string \<Rightarrow> pyval option) \<Rightarrow> string option \<Rightarrow> string \<Rightarrow> string \<Rightarrow> pyval" where
  "analyze_context loads response context_text source =
     (case response of
        None \<Rightarrow> fallback_context_analysis context_text
      | Some r \<Rightarrow>
          if r = [] then fallback_context_analysis context_text
          else (case loads r of
                  Some v \<Rightarrow> v
                | None \<Rightarrow> fallback_context_analysis context_text))"

section \<open>Context entries (views.py)\<close>

datatype py_error =
    AttributeError | TypeError | ZeroDivisionError | ValidationError string | IntegrityError

text \<open>
  A context entry, with the fields the view reads or writes (the optional source title
  and the two timestamps are left out).
\<close>

record context_entry =
  entry_user :: nat
  content :: string
  source_type :: string
  processed_insights :: pyval
  entry_priority_score :: real
  entry_keywords :: pyval
  sentiment_score :: real

text \<open>\<^verbatim>\<open>analysis.get(key, default)\<close>: only a dict has the method.\<close>

definition dict_get :: "pyval \<Rightarrow> string \<Rightarrow> pyval \<Rightarrow> py_error + pyval" where
  "dict_get v k dflt = (case v of PDict kvs \<Rightarrow> Inr (py_get kvs k dflt) | _ \<Rightarrow> Inl AttributeError)"

text \<open>\<^verbatim>\<open>s in v\<close> for a string \<open>s\<close>.\<close>

fun py_in :: "string \<Rightarrow> pyval \<Rightarrow> py_error + bool" where
  "py_in s (PList xs) = Inr (PStr s \<in> set xs)"
| "py_in s (PStr t) = Inr (contains s t)"
| "py_in s (PDict kvs) = Inr (s \<in> set (map fst kvs))"
| "py_in s PNone = Inl TypeError"
| "py_in s (PBool b) = Inl TypeError"
| "py_in s (PNum x) = Inl TypeError"

definition calculate_sentiment_score :: "pyval \<Rightarrow> py_error + real" where
  "calculate_sentiment_score sentiment =
     (case sentiment of
        PStr s \<Rightarrow>
          Inr (case map_of [(''positive'', 8 / 10), (''negative'', 2 / 10), (''neutral'', 5 / 10)]
                      (lower s) of
                 Some x \<Rightarrow> x
               | None \<Rightarrow> 5 / 10)
      | _ \<Rightarrow> Inl AttributeError)"

definition calculate_priority_score :: "pyval \<Rightarrow> py_error + real" where
  "calculate_priority_score analysis =
     (case dict_get analysis ''priorities'' (PList []) of
        Inl e \<Rightarrow> Inl e
      | Inr priorities \<Rightarrow>
          (case py_in ''high'' priorities of
             Inl e \<Rightarrow> Inl e
           | Inr True \<Rightarrow> Inr (8 / 10)
           | Inr False \<Rightarrow>
               (case py_in ''urgent'' priorities of
                  Inl e \<Rightarrow> Inl e
                | Inr True \<Rightarrow> Inr (8 / 10)
                | Inr False \<Rightarrow>
                    (case py_in ''important'' priorities of
                       Inl e \<Rightarrow> Inl e
                     | Inr True \<Rightarrow> Inr (6 / 10)
                     | Inr False \<Rightarrow> Inr (4 / 10)))))"

text \<open>The four assignments of \<^verbatim>\<open>perform_create\<close> after the analysis, in order.\<close>

definition update_with_insights :: "pyval \<Rightarrow> context_entry \<Rightarrow> py_error + context_entry" where
  "update_with_insights analysis entry =
     (case dict_get analysis ''keywords'' (PList []) of
        Inl e \<Rightarrow> Inl e
      | Inr kws \<Rightarrow>
          (case dict_get analysis ''sentiment'' (PStr ''neutral'') of
             Inl e \<Rightarrow> Inl e
           | Inr sentiment \<Rightarrow>
               (case calculate_sentiment_score sentiment of
                  Inl e \<Rightarrow> Inl e
                | Inr s_score \<Rightarrow>
                    (case calculate_priority_score analysis of
                       Inl e \<Rightarrow> Inl e
                     | Inr p_score \<Rightarrow>
                         Inr (entry\<lparr>processed_insights := analysis, entry_keywords := kws,
                                    sentiment_score := s_score,
                                    entry_priority_score := p_score\<rparr>)))))"

text \<open>
  \<^verbatim>\<open>ContextEntryViewSet.perform_create\<close>: the entry is stored first, with the
  defaults of the model, then analysed and stored again. The keywords column does not
  accept NULL, so storing the keywords \<^verbatim>\<open>None\<close> raises IntegrityError. An
  exception leaves the first version in the table and reaches the caller.
\<close>

definition perform_create ::
  "(string \<Rightarrow> pyval option) \<Rightarrow> string option \<Rightarrow> nat \<Rightarrow> string \<Rightarrow> string \<Rightarrow> context_entry list
     \<Rightarrow> context_entry list \<times> (py_error + context_entry)" where
  "perform_create loads response u content_text source table =
     (let entry = \<lparr>entry_user = u, content = content_text, source_type = source,
                    processed_insights = PDict [], entry_priority_score = 0,
                    entry_keywords = PList [], sentiment_score = 0\<rparr>;
          analysis = analyze_context loads response (content entry) (source_type entry)
      in case update_with_insights analysis entry of
           Inl e \<Rightarrow> (table @ [entry], Inl e)
         | Inr entry' \<Rightarrow>
             if entry_keywords entry' = PNone then (table @ [entry], Inl IntegrityError)
             else (table @ [entry'], Inr entry'))"

section \<open>Statistics (views.py)\<close>

record task_stats =
  total :: nat
  completed :: nat
  pending :: nat
  in_progress :: nat
  high_priority :: nat
  overdue :: nat
  completion_rate :: real

definition get_queryset :: "nat \<Rightarrow> task list \<Rightarrow> task list" where
  "get_queryset u all_tasks = filter (\<lambda>t. user t = u) all_tasks"

text \<open>
  The three operations of binary floating-point arithmetic that the completion rate
  uses are parameters: \<open>truediv a b\<close> is \<^verbatim>\<open>a / b\<close> on two ints (for
  \<open>b\<close> other than 0), \<open>fmul x y\<close> is \<^verbatim>\<open>x * y\<close> and \<open>round1 x\<close>
  is \<^verbatim>\<open>round(x, 1)\<close> on a float. A float is read as the real number it
  denotes.
\<close>

record float_ops =
  truediv :: "nat \<Rightarrow> nat \<Rightarrow> real"
  fmul :: "real \<Rightarrow> real \<Rightarrow> real"
  round1 :: "real \<Rightarrow> real"

definition py_truediv :: "float_ops \<Rightarrow> nat \<Rightarrow> nat \<Rightarrow> py_error + real" where
  "py_truediv fl a b = (if b = 0 then Inl ZeroDivisionError else Inr (truediv fl a b))"

text \<open>
  \<^verbatim>\<open>TaskViewSet.stats\<close>. Without tasks the rounded value is the int 0, which
  \<^verbatim>\<open>round(0, 1)\<close> returns as it is.
\<close>

definition stats :: "float_ops \<Rightarrow> nat \<Rightarrow> datetime \<Rightarrow> task list \<Rightarrow> py_error + task_stats" where
  "stats fl u now all_tasks =
     (let queryset = get_queryset u all_tasks;
          total_tasks = length queryset;
          completed_tasks = length (filter (\<lambda>t. status t = Completed) queryset);
          pending_tasks = length (filter (\<lambda>t. status t = Pending) queryset);
          in_progress_tasks = length (filter (\<lambda>t. status t = InProgress) queryset);
          high_priority_tasks = length (filter (\<lambda>t. priority_score t \<ge> 7 / 10) queryset);
          overdue_tasks =
            length (filter (\<lambda>t. (case due_date t of None \<Rightarrow> False | Some d \<Rightarrow> d < now)
                                  \<and> status t \<in> {Pending, InProgress}) queryset)
      in case (if total_tasks > 0
               then (case py_truediv fl completed_tasks total_tasks of
                       Inl e \<Rightarrow> Inl e
                     | Inr q \<Rightarrow> Inr (round1 fl (fmul fl q 100)))
               else Inr 0) of
           Inl e \<Rightarrow> Inl e
         | Inr rate \<Rightarrow>
             Inr \<lparr>total = total_tasks, completed = completed_tasks, pending = pending_tasks,
                  in_progress = in_progress_tasks, high_priority = high_priority_tasks,
                  overdue = overdue_tasks, completion_rate = rate\<rparr>)"

section \<open>Task creation (serializers.py)\<close>

definition validate_title :: "string \<Rightarrow> py_error + string" where
  "validate_title v =
     (if strip v = [] then Inl (ValidationError ''Title cannot be empty.'') else Inr (strip v))"

text \<open>
  The validated data of \<^verbatim>\<open>TaskCreateSerializer\<close>. An optional field the request
  left out is \<open>None\<close>; a description sent as \<^verbatim>\<open>null\<close> is \<open>Some None\<close>.
\<close>

record validated_data =
  vd_title :: string
  vd_description :: "string option option"
  vd_priority :: "priority option"
  vd_due_date :: "datetime option"
  vd_category :: "category option"

text \<open>The replies of the service to the four calls of one creation, in order.\<close>

record replies =
  priority_reply :: "string option"
  deadline_reply :: "string option"
  category_reply :: "string option"
  description_reply :: "string option"

fun truthy :: "pyval \<Rightarrow> bool" where
  "truthy PNone = False"
| "truthy (PBool b) = b"
| "truthy (PNum x) = (x \<noteq> 0)"
| "truthy (PStr s) = (s \<noteq> [])"
| "truthy (PList xs) = (xs \<noteq> [])"
| "truthy (PDict kvs) = (kvs \<noteq> [])"

text \<open>
  \<^verbatim>\<open>Category.objects.get_or_create(name=..., defaults={'color': '#3B82F6'})\<close>
  on the category table.
\<close>

definition get_or_create :: "string \<Rightarrow> category list \<Rightarrow> category \<times> category list" where
  "get_or_create nm table =
     (case find (\<lambda>c. name c = nm) table of
        Some c \<Rightarrow> (c, table)
      | None \<Rightarrow>
          (let c = \<lparr>name = nm, color = ''#3B82F6'', usage_frequency = 0\<rparr> in (c, table @ [c])))"

text \<open>
  The parsers of the three replies, and \<open>str_of\<close>, the text the character field
  \<^verbatim>\<open>name\<close> makes of a category name that is no string.
\<close>

record parsers =
  to_float :: "string \<Rightarrow> real option"
  strptime :: "string \<Rightarrow> datetime option"
  loads :: "string \<Rightarrow> pyval option"
  str_of :: "pyval \<Rightarrow> string"

text \<open>
  \<^verbatim>\<open>TaskCreateSerializer.create\<close>. The recent context entries only enter the
  prompts, so they are no parameter. The result is the new task and the category
  table. The tags column does not accept NULL, so inserting the tags
  \<^verbatim>\<open>None\<close> raises IntegrityError. A score that is no finite number (the
  reply "nan") is outside the model, and so is what the table does with it.
\<close>

definition create ::
  "parsers \<Rightarrow> replies \<Rightarrow> nat option \<Rightarrow> datetime \<Rightarrow> task list \<Rightarrow> category list \<Rightarrow> validated_data
     \<Rightarrow> py_error + (task \<times> category list)" where
  "create ps rs request_user now all_tasks categories vd =
     (case request_user of
        None \<Rightarrow> Inl (ValidationError ''User is required.'')
      | Some u \<Rightarrow>
          (let ttl = vd_title vd;
               descr = (case vd_description vd of None \<Rightarrow> Some [] | Some d \<Rightarrow> d);
               score = prioritize_task (to_float ps) (priority_reply rs) ttl descr;
               current_workload =
                 int (length (filter (\<lambda>t. user t = u \<and> status t = Pending) all_tasks));
               deadline =
                 suggest_deadline (strptime ps) now (deadline_reply rs) ttl descr current_workload;
               (category_name, tgs) =
                 suggest_categories_and_tags (loads ps) (category_reply rs) ttl descr;
               (cat, tgs', categories') =
                 (if truthy category_name
                  then (let (c, table) =
                              get_or_create
                                (case category_name of PStr s \<Rightarrow> s | v \<Rightarrow> str_of ps v) categories
                        in (Some c, tgs, table))
                  else (vd_category vd, PList [], categories));
               enhanced = enhance_task_description (description_reply rs) ttl descr
           in if tgs' = PNone then Inl IntegrityError
              else Inr (\<lparr>title = ttl,
                     description = (case vd_description vd of None \<Rightarrow> None | Some d \<Rightarrow> d),
                     status = Pending,
                     priority = (case vd_priority vd of None \<Rightarrow> Medium | Some p \<Rightarrow> p),
                     priority_score = score,
                     due_date = vd_due_date vd,
                     suggested_deadline = deadline,
                     task_category = cat,
                     tags = tgs',
                     ai_enhanced_description = Some enhanced,
                     created_at = now,
                     updated_at = now,
                     completed_at = None,
                     user = u\<rparr>, categories')))"

section \<open>The properties as the specification words them\<close>

text \<open>The urgency lexicon of the specification, and the number of its words in a text.\<close>

definition urgency_lexicon :: "string set" where
  "urgency_lexicon = {''urgent'', ''asap'', ''immediately'', ''deadline'', ''due'',
                      ''important'', ''critical'', ''emergency''}"

definition lexicon_matches :: "string \<Rightarrow> nat" where
  "lexicon_matches text = card (Set.filter (\<lambda>w. contains w text) urgency_lexicon)"

text \<open>
  The other reading of "counts occurrences": the number of places at which a word
  occurs in a text, summed over the lexicon.
\<close>

fun occurrences :: "string \<Rightarrow> string \<Rightarrow> nat" where
  "occurrences w [] = (if w = [] then 1 else 0)"
| "occurrences w (c # cs) = (if prefix w (c # cs) then 1 else 0) + occurrences w cs"

definition lexicon_occurrences :: "string \<Rightarrow> nat" where
  "lexicon_occurrences text = (\<Sum>w\<in>urgency_lexicon. occurrences w text)"

text \<open>The score the specification gives to a number of matches.\<close>

definition score_of_matches :: "nat \<Rightarrow> real" where
  "score_of_matches n = (if n \<ge> 2 then 9 / 10 else if n = 1 then 7 / 10 else 5 / 10)"



text \<open>
  The words of a text: the text is a sequence of words, each a non-empty run of word
  characters, with gaps of other characters before, between and after them; no word
  is followed by a word character. The list has the words in text order, repeats
  included.
\<close>

inductive tokenization :: "string \<Rightarrow> string list \<Rightarrow> bool" where
  gap: "list_all (\<lambda>c. \<not> is_word_char c) g \<Longrightarrow> tokenization g []"
| word: "list_all (\<lambda>c. \<not> is_word_char c) g \<Longrightarrow> w \<noteq> [] \<Longrightarrow> list_all is_word_char w \<Longrightarrow>
         rest = [] \<or> \<not> is_word_char (hd rest) \<Longrightarrow> tokenization rest ws \<Longrightarrow>
         tokenization (g @ w @ rest) (w # ws)"

text \<open>The stop words and the urgency words of the context analysis, as sets.\<close>

definition analysis_lexicon :: "string set" where
  "analysis_lexicon = {''urgent'', ''asap'', ''immediately'', ''deadline'', ''due'',
                       ''important'', ''critical''}"

definition analysis_stop_words :: "string set" where
  "analysis_stop_words = {''this'', ''that'', ''with'', ''from'', ''they'', ''have'', ''will'',
                          ''been'', ''were''}"

text \<open>A word run of a text that no word character borders on either side.\<close>

definition maximal_word_run :: "string \<Rightarrow> string \<Rightarrow> bool" where
  "maximal_word_run text w =
     (w \<noteq> [] \<and> list_all is_word_char w \<and>
      (\<exists>pre post. text = pre @ w @ post \<and>
         (pre = [] \<or> \<not> is_word_char (last pre)) \<and>
         (post = [] \<or> \<not> is_word_char (hd post))))"

text \<open>What a created task shows of the three suggestions: score, category name, tags.\<close>

definition created_suggestions ::
  "py_error + (task \<times> category list) \<Rightarrow> (real \<times> string option \<times> pyval) option" where
  "created_suggestions res =
     (case res of
        Inl e \<Rightarrow> None
      | Inr (tk, table) \<Rightarrow> Some (priority_score tk, map_option name (task_category tk), tags tk))"

section \<open>Concrete inputs\<close>

definition sample_task :: task where
  "sample_task =
     \<lparr>title = ''Pay rent'', description = None, status = InProgress, priority = Medium,
      priority_score = 5 / 10, due_date = None, suggested_deadline = None,
      task_category = None, tags = PList [], ai_enhanced_description = None,
      created_at = 10, updated_at = 10, completed_at = None, user = 1\<rparr>"

text \<open>
  The values of \<^verbatim>\<open>float\<close> and \<^verbatim>\<open>json.loads\<close> on the replies used below:
  \<^verbatim>\<open>float("5.0")\<close> is 5.0 and \<^verbatim>\<open>float("0.4")\<close> is 0.4; the JSON
  texts are an empty array, an object with the keywords null, and an object with a
  category and the tags null.
\<close>

definition sample_parsers :: parsers where
  \<open>sample_parsers =
     \<lparr>to_float = map_of [(''5.0'', 5), (''0.4'', 4 / 10)],
      strptime = map_of [],
      loads = map_of [(''[]'', PList []),
                      (''{"keywords": null}'', PDict [(''keywords'', PNone)]),
                      (''{"category": "Work", "tags": null}'',
                       PDict [(''category'', PStr ''Work''), (''tags'', PNone)])],
      str_of = (\<lambda>v. [])\<rparr>\<close>



definition sample_note :: string where
  "sample_note =
     ''URGENT: send this report, then send that invoice with photos from Monday '' @
     ''before Friday evening; call Maria about the budget.''"

definition service_disabled :: replies where
  "service_disabled =
     \<lparr>priority_reply = call_ai_api None Raised, deadline_reply = call_ai_api None Raised,
      category_reply = call_ai_api None Raised, description_reply = call_ai_api None Raised\<rparr>"

definition urgent_report :: validated_data where
  "urgent_report =
     \<lparr>vd_title = ''Finish urgent report ASAP'', vd_description = Some (Some []),
      vd_priority = None, vd_due_date = None, vd_category = None\<rparr>"

section \<open>Status toggling and the completion timestamp\<close>

text \<open>
  The serializer keeps the completion timestamp in step with the status whenever a
  status is written.
\<close>

lemma update_keeps_invariant:
  "completed_at_invariant (update now t (Some s))"
  by (simp add: update_def save_def completed_at_invariant_def)

lemma update_without_status_keeps_invariant:
  "completed_at_invariant (update now t None) = completed_at_invariant t"
  by (simp add: update_def save_def completed_at_invariant_def)

text \<open>
  Claim C1. The completion timestamp should be set exactly when the status is
  completed, and toggling a pending task should set it. The toggle action writes the
  status alone: a pending task that satisfies the invariant comes back completed with
  no completion timestamp, so the invariant is lost; and a completed task comes back
  pending with its completion timestamp still set.
\<close>

theorem toggle_status_breaks_invariant:
  "completed_at_invariant (sample_task\<lparr>status := Pending\<rparr>) \<and>
   toggle_status 1 50 [7 \<mapsto> sample_task\<lparr>status := Pending\<rparr>] 7 =
     Inr ([7 \<mapsto> sample_task\<lparr>status := Completed, updated_at := 50\<rparr>],
          sample_task\<lparr>status := Completed, updated_at := 50\<rparr>) \<and>
   completed_at (sample_task\<lparr>status := Completed, updated_at := 50\<rparr>) = None \<and>
   \<not> completed_at_invariant (sample_task\<lparr>status := Completed, updated_at := 50\<rparr>) \<and>
   completed_at
     (toggle_status_task 50 (sample_task\<lparr>status := Completed, completed_at := Some 20\<rparr>))
     = Some 20 \<and>
   status
     (toggle_status_task 50 (sample_task\<lparr>status := Completed, completed_at := Some 20\<rparr>))
     = Pending"
  by (simp add: toggle_status_def get_object_def toggle_status_task_def save_def
      completed_at_invariant_def sample_task_def Let_def)

text \<open>
  Claim C10. On a task of the requesting user that is in progress or cancelled, the
  toggle action changes nothing but the update timestamp: the status and every other
  field stay, the other tasks of the table stay, and the task is returned.
\<close>

theorem toggle_status_other_states:
  assumes "db pk = Some t" and "user t = u"
    and "status t = InProgress \<or> status t = Cancelled"
  shows "toggle_status u now db pk =
           Inr (db(pk \<mapsto> t\<lparr>updated_at := now\<rparr>), t\<lparr>updated_at := now\<rparr>)"
  using assms
  by (auto simp: toggle_status_def get_object_def toggle_status_task_def save_def Let_def)

text \<open>Claim C10 on a task in progress, stored under key 7 and toggled by its owner.\<close>

theorem toggle_status_other_states_witness:
  "[7 \<mapsto> sample_task] 7 = Some sample_task \<and> user sample_task = 1 \<and>
   (status sample_task = InProgress \<or> status sample_task = Cancelled) \<and>
   toggle_status 1 50 [7 \<mapsto> sample_task] 7 =
     Inr ([7 \<mapsto> sample_task\<lparr>updated_at := 50\<rparr>], sample_task\<lparr>updated_at := 50\<rparr>)"
proof -
  have h1: "[7 \<mapsto> sample_task] (7::nat) = Some sample_task" by simp
  have h2: "user sample_task = 1" by (simp add: sample_task_def)
  have h3: "status sample_task = InProgress \<or> status sample_task = Cancelled"
    by (simp add: sample_task_def)
  show ?thesis
    using h1 h2 h3
      toggle_status_other_states [of "[7 \<mapsto> sample_task]" 7 sample_task 1 50, OF h1 h2 h3]
    by simp
qed

section \<open>Deadline suggestion\<close>

lemma fallback_deadline_examples:
  "fallback_deadline_suggestion now ttl 0 = Some (now + timedelta_days 1)"
  "fallback_deadline_suggestion now ttl 6 = Some (now + timedelta_days 7)"
  "fallback_deadline_suggestion now ttl 10 = Some (now + timedelta_days 7)"
  by (simp_all add: fallback_deadline_suggestion_def)

lemma suggest_deadline_unparsed:
  "r \<noteq> [] \<Longrightarrow> lower (strip r) \<noteq> ''none'' \<Longrightarrow> sp (strip r) = None \<Longrightarrow>
   suggest_deadline sp now (Some r) ttl descr w = Some (now + timedelta_days (min (w + 1) 7))"
  by (simp add: suggest_deadline_def fallback_deadline_suggestion_def)

lemma suggest_deadline_literal_none:
  "lower (strip r) = ''none'' \<Longrightarrow> suggest_deadline sp now (Some r) ttl descr w = None"
  by (simp add: suggest_deadline_def)

text \<open>
  Claim C2. A failed service call should give the workload-based fallback deadline.
  Without an API key, after a raised request and after a non-200 status the call
  returns \<open>None\<close>; the deadline suggestion then takes the branch meant for the reply
  "None" and proposes no deadline, where the fallback for no open task is one day
  from now.
\<close>

theorem suggest_deadline_service_failure:
  "suggest_deadline sp now (call_ai_api None outcome) ttl descr 0 = None \<and>
   suggest_deadline sp now (call_ai_api (Some k) Raised) ttl descr 0 = None \<and>
   suggest_deadline sp now (call_ai_api (Some k) (Answered 500 body)) ttl descr 0 = None \<and>
   fallback_deadline_suggestion now ttl 0 = Some (now + 86400)"
  by (simp add: call_ai_api_def suggest_deadline_def fallback_deadline_suggestion_def
      timedelta_days_def)

section \<open>Priority score\<close>

lemma fallback_priority_values:
  "fallback_priority_calculation ttl descr \<in> {5 / 10, 7 / 10, 9 / 10}"
  by (simp add: fallback_priority_calculation_def Let_def)

lemma prioritize_task_parsed:
  "r \<noteq> [] \<Longrightarrow> tf (strip r) = Some x \<Longrightarrow> prioritize_task tf (Some r) ttl descr = x"
  by (simp add: prioritize_task_def)

text \<open>
  Claim C3, as stated, fails: the reply "5.0" is a float literal, and it is returned
  as it is, above 1.
\<close>

theorem prioritize_task_out_of_range:
  "\<not> (0 \<le> prioritize_task (to_float sample_parsers)
              (call_ai_api (Some ''key'') (Answered 200 ''5.0'')) ''Pay rent'' None \<and>
       prioritize_task (to_float sample_parsers)
         (call_ai_api (Some ''key'') (Answered 200 ''5.0'')) ''Pay rent'' None \<le> 1)"
  by (simp add: prioritize_task_def call_ai_api_def sample_parsers_def strip_def is_space_def)

text \<open>
  Claim C3, amended. For every title, description and outcome of the service call,
  the priority score lies in [0,1] provided that the reply, if it is a non-empty text
  that parses as a float literal, parses to a value in [0,1]. (The parsed value is
  returned unclamped, see \<open>prioritize_task_parsed\<close>.)
\<close>

theorem prioritize_task_in_range:
  assumes "\<And>r x. response = Some r \<Longrightarrow> r \<noteq> [] \<Longrightarrow> tf (strip r) = Some x \<Longrightarrow> 0 \<le> x \<and> x \<le> 1"
  shows "0 \<le> prioritize_task tf response ttl descr \<and> prioritize_task tf response ttl descr \<le> 1"
proof -
  have fb: "0 \<le> fallback_priority_calculation ttl descr \<and>
            fallback_priority_calculation ttl descr \<le> 1"
    using fallback_priority_values [of ttl descr] by auto
  show ?thesis
  proof (cases response)
    case None
    then show ?thesis using fb by (simp add: prioritize_task_def)
  next
    case (Some r)
    show ?thesis
    proof (cases "r = [] \<or> tf (strip r) = None")
      case True
      then show ?thesis using Some fb by (auto simp: prioritize_task_def)
    next
      case False
      then obtain x where x: "r \<noteq> []" "tf (strip r) = Some x" by auto
      with assms Some have "0 \<le> x \<and> x \<le> 1" by blast
      then show ?thesis using Some x by (simp add: prioritize_task_def)
    qed
  qed
qed

text \<open>Claim C3, amended, on the reply " 0.4".\<close>

theorem prioritize_task_in_range_witness:
  "prioritize_task (to_float sample_parsers) (Some '' 0.4'') ''Pay rent'' None = 4 / 10 \<and>
   0 \<le> prioritize_task (to_float sample_parsers) (Some '' 0.4'') ''Pay rent'' None \<and>
   prioritize_task (to_float sample_parsers) (Some '' 0.4'') ''Pay rent'' None \<le> 1"
proof -
  have h: "\<And>r x. Some '' 0.4'' = Some r \<Longrightarrow> r \<noteq> [] \<Longrightarrow>
             to_float sample_parsers (strip r) = Some x \<Longrightarrow> 0 \<le> x \<and> x \<le> 1"
    by (auto simp: sample_parsers_def strip_def is_space_def)
  have v: "prioritize_task (to_float sample_parsers) (Some '' 0.4'') ''Pay rent'' None = 4 / 10"
    by (simp add: prioritize_task_def sample_parsers_def strip_def is_space_def)
  show ?thesis
    using v prioritize_task_in_range
      [of "Some '' 0.4''" "to_float sample_parsers" "''Pay rent''" None, OF h]
    by simp
qed

section \<open>Creation under every behaviour of the service\<close>

lemma create_service_disabled:
  "\<exists>tk table.
     create ps \<lparr>priority_reply = None, deadline_reply = None, category_reply = None,
                description_reply = None\<rparr> (Some u) now all_tasks categories vd =
     Inr (tk, table)"
  by (simp add: create_def Let_def suggest_categories_and_tags_def categorization_value_def
      split: prod.splits)

text \<open>Two more replies that the fallbacks do not catch: a field sent as null.\<close>

lemma create_tags_null:
  \<open>create sample_parsers
     \<lparr>priority_reply = None, deadline_reply = None,
      category_reply = Some ''{"category": "Work", "tags": null}'', description_reply = None\<rparr>
     (Some 1) 0 [] [] urgent_report = Inl IntegrityError\<close>
  by (simp add: create_def Let_def suggest_categories_and_tags_def sample_parsers_def
      py_get_def get_or_create_def split: prod.splits)

lemma perform_create_keywords_null:
  \<open>snd (perform_create (loads sample_parsers) (Some ''{"keywords": null}'')
          1 ''Call the bank'' ''notes'' []) = Inl IntegrityError\<close>
  by (simp add: perform_create_def analyze_context_def sample_parsers_def
      update_with_insights_def dict_get_def py_get_def calculate_sentiment_score_def
      calculate_priority_score_def lower_def char_lower_def upper_chars_def lower_chars_def
      Let_def)

lemma perform_create_unavailable:
  "\<exists>entry. snd (perform_create ld None u c src table) = Inr entry"
  by (simp add: perform_create_def analyze_context_def fallback_context_analysis_def
      update_with_insights_def dict_get_def py_get_def calculate_sentiment_score_def
      calculate_priority_score_def lower_def char_lower_def upper_chars_def lower_chars_def Let_def)

text \<open>
  Claim C8. No reply of the service should make a creation fail. The reply "[]" is
  well-formed JSON, so the analysis returns the parsed list; the view then asks it for
  its keywords as if it were a dict, and the AttributeError reaches the caller. The
  entry stays stored without insights.
\<close>

theorem perform_create_json_array:
  "perform_create (loads sample_parsers) (call_ai_api (Some ''key'') (Answered 200 ''[]''))
     1 ''Call the bank'' ''notes'' [] =
   ([\<lparr>entry_user = 1, content = ''Call the bank'', source_type = ''notes'',
      processed_insights = PDict [], entry_priority_score = 0, entry_keywords = PList [],
      sentiment_score = 0\<rparr>], Inl AttributeError)"
  by (simp add: perform_create_def analyze_context_def call_ai_api_def sample_parsers_def
      update_with_insights_def dict_get_def)

section \<open>Fallback suggestions at task creation\<close>

lemma get_or_create_name: "name (fst (get_or_create nm table)) = nm"
  by (auto simp: get_or_create_def Let_def find_Some_iff split: option.splits)

lemma urgent_report_priority:
  "fallback_priority_calculation ''Finish urgent report ASAP'' (Some []) = 9 / 10"
  by code_simp

lemma urgent_report_category:
  "fallback_categorization ''Finish urgent report ASAP'' =
     (''Personal'', [''personal'', ''general''])"
  by code_simp

text \<open>
  Claim C4, as stated, fails: with the service disabled, the task created for the
  title "Finish urgent report ASAP" and an empty description does not show score 0.9,
  category "Work" and tags work, professional. (The title has none of the words work,
  job, office, meeting, project.)
\<close>

theorem create_urgent_report_not_work:
  "created_suggestions (create sample_parsers service_disabled (Some 1) 0 [] [] urgent_report)
     \<noteq> Some (9 / 10, Some ''Work'', PList [PStr ''work'', PStr ''professional''])"
  by (simp add: created_suggestions_def create_def service_disabled_def call_ai_api_def
      urgent_report_def prioritize_task_def suggest_deadline_def suggest_categories_and_tags_def
      enhance_task_description_def urgent_report_priority urgent_report_category
      categorization_value_def get_or_create_def Let_def)

text \<open>
  Claim C4, amended. With the service disabled, creating a task with the title
  "Finish urgent report ASAP" and an empty description yields priority score 0.9,
  category "Personal" and tags personal, general, whoever the user is and whatever
  the tables hold.
\<close>

theorem create_urgent_report_fallback:
  "created_suggestions
     (create ps
        \<lparr>priority_reply = call_ai_api None o1, deadline_reply = call_ai_api None o2,
         category_reply = call_ai_api None o3, description_reply = call_ai_api None o4\<rparr>
        (Some u) now all_tasks categories
        (vd\<lparr>vd_title := ''Finish urgent report ASAP'', vd_description := Some (Some [])\<rparr>))
   = Some (9 / 10, Some ''Personal'', PList [PStr ''personal'', PStr ''general''])"
  using get_or_create_name [of "''Personal''" categories]
  by (simp add: created_suggestions_def create_def call_ai_api_def
      prioritize_task_def suggest_deadline_def suggest_categories_and_tags_def
      enhance_task_description_def urgent_report_priority urgent_report_category
      categorization_value_def Let_def split: prod.splits) auto

section \<open>The fallback priority score\<close>

lemma set_urgency_words: "set urgency_words = urgency_lexicon"
  by (simp add: urgency_words_def urgency_lexicon_def)

lemma distinct_urgency_words: "distinct urgency_words"
  by (simp add: urgency_words_def)

lemma sum_ones_length: "sum_list (map (\<lambda>x. Suc 0) xs) = length xs"
  by (induction xs) auto

text \<open>
  The generator sum of the source counts each lexicon word once, however often it
  occurs in the text: it is the number of lexicon words that occur.
\<close>

lemma urgency_count_matches: "urgency_count text = lexicon_matches text"
proof -
  have "urgency_count text = length (filter (\<lambda>w. contains w text) urgency_words)"
    by (simp add: urgency_count_def sum_ones_length)
  also have "\<dots> = card (set (filter (\<lambda>w. contains w text) urgency_words))"
    using distinct_urgency_words distinct_card [of "filter (\<lambda>w. contains w text) urgency_words"]
    by (simp del: set_filter)
  also have "\<dots> = lexicon_matches text"
    using set_urgency_words by (auto simp: lexicon_matches_def intro: arg_cong [where f = card])
  finally show ?thesis .
qed

lemma score_of_matches_mono: "m \<le> n \<Longrightarrow> score_of_matches m \<le> score_of_matches n"
  by (simp add: score_of_matches_def)

text \<open>
  Claim C5, as stated, fails if occurrences are counted: a title and a description that
  both say "urgent" hold two occurrences of a lexicon word, which would score 0.9, yet
  the fallback returns 0.7. Nor is the score monotonic in the number of occurrences:
  "urgent asap" (two) scores 0.9, "urgent, urgent, urgent" (three) scores 0.7.
\<close>

theorem fallback_priority_counts_words_once:
  "lexicon_occurrences (lower (''Urgent call'' @ '' '' @ fstr (Some ''urgent: call the bank''))) = 2 \<and>
   score_of_matches 2 = 9 / 10 \<and>
   fallback_priority_calculation ''Urgent call'' (Some ''urgent: call the bank'') = 7 / 10 \<and>
   lexicon_occurrences (lower (''urgent asap'' @ '' '' @ fstr (Some [])))
     \<le> lexicon_occurrences (lower (''urgent, urgent, urgent'' @ '' '' @ fstr (Some []))) \<and>
   \<not> fallback_priority_calculation ''urgent asap'' (Some [])
     \<le> fallback_priority_calculation ''urgent, urgent, urgent'' (Some [])"
  by code_simp

text \<open>
  Claim C5, amended. The fallback priority is determined by the number of distinct
  urgency-lexicon words that occur as substrings of the lowercased text "title
  description" (a word counts once, however often it occurs): 0.9 for two or more,
  0.7 for one, 0.5 for none (\<open>score_of_matches\<close>). So it is one of 0.5, 0.7,
  0.9, and a text with at least as many such words gets at least as high a score.
\<close>

theorem fallback_priority_by_matches:
  "fallback_priority_calculation ttl descr =
     score_of_matches (lexicon_matches (lower (ttl @ '' '' @ fstr descr))) \<and>
   fallback_priority_calculation ttl descr \<in> {5 / 10, 7 / 10, 9 / 10} \<and>
   (lexicon_matches (lower (ttl @ '' '' @ fstr descr))
      \<le> lexicon_matches (lower (ttl' @ '' '' @ fstr descr')) \<longrightarrow>
    fallback_priority_calculation ttl descr \<le> fallback_priority_calculation ttl' descr')"
proof -
  have eq: "\<And>a b. fallback_priority_calculation a b =
     score_of_matches (lexicon_matches (lower (a @ '' '' @ fstr b)))"
    by (simp add: fallback_priority_calculation_def score_of_matches_def
        urgency_count_matches Let_def)
  have vals: "\<And>n. score_of_matches n \<in> {5 / 10, 7 / 10, 9 / 10}"
    by (simp add: score_of_matches_def)
  show ?thesis
    unfolding eq using vals score_of_matches_mono by blast
qed

text \<open>
  Claim C5, amended, on two tasks whose urgency words stand in the description: one
  word against two.
\<close>

theorem fallback_priority_by_matches_witness:
  "lexicon_matches (lower (''Call the bank'' @ '' '' @ fstr (Some ''It is URGENT'')))
     \<le> lexicon_matches (lower (''Send report'' @ '' '' @ fstr (Some ''Due ASAP''))) \<and>
   fallback_priority_calculation ''Call the bank'' (Some ''It is URGENT'') = 7 / 10 \<and>
   fallback_priority_calculation ''Call the bank'' (Some ''It is URGENT'')
     \<le> fallback_priority_calculation ''Send report'' (Some ''Due ASAP'')"
proof -
  have m1: "lexicon_matches (lower (''Call the bank'' @ '' '' @ fstr (Some ''It is URGENT''))) = 1"
    by code_simp
  have m2: "lexicon_matches (lower (''Send report'' @ '' '' @ fstr (Some ''Due ASAP''))) = 2"
    by code_simp
  have le: "lexicon_matches (lower (''Call the bank'' @ '' '' @ fstr (Some ''It is URGENT'')))
     \<le> lexicon_matches (lower (''Send report'' @ '' '' @ fstr (Some ''Due ASAP'')))"
    unfolding m1 m2 by simp
  note T = fallback_priority_by_matches
    [of "''Call the bank''" "Some ''It is URGENT''" "''Send report''" "Some ''Due ASAP''"]
  from T have v: "fallback_priority_calculation ''Call the bank'' (Some ''It is URGENT'') =
      score_of_matches 1"
    unfolding m1 by blast
  from T le have "fallback_priority_calculation ''Call the bank'' (Some ''It is URGENT'')
     \<le> fallback_priority_calculation ''Send report'' (Some ''Due ASAP'')"
    by blast
  with le v show ?thesis by (simp add: score_of_matches_def)
qed

section \<open>The fallback categorization\<close>

lemma lower_not_upper: "d \<in> set lower_chars \<Longrightarrow> d \<notin> set upper_chars"
  by (auto simp: lower_chars_def upper_chars_def)

lemma char_lower_idem: "char_lower (char_lower c) = char_lower c"
proof (cases "map_of (zip upper_chars lower_chars) c")
  case None
  then show ?thesis by (simp add: char_lower_def)
next
  case (Some d)
  then have "d \<in> set lower_chars"
    by (meson map_of_SomeD set_zip_rightD)
  then have "d \<notin> set upper_chars" by (rule lower_not_upper)
  then have "map_of (zip upper_chars lower_chars) d = None"
    by (simp add: map_of_zip_is_None upper_chars_def lower_chars_def)
  with Some show ?thesis by (simp add: char_lower_def)
qed

lemma lower_idem: "lower (lower s) = lower s"
  by (simp add: lower_def char_lower_idem)

lemma any_word_in_iff: "any_word_in ws text = (\<exists>w\<in>set ws. contains w text)"
  by (simp add: any_word_in_def list_ex_iff)

text \<open>
  Claim C6. The fallback categorization is total, and its result is one of the five
  pairs. It depends on the lowercased title only. The buckets are tried in the order
  Work, Home, Health, Learning: each is chosen exactly when one of its keywords occurs
  in the lowercased title and no keyword of an earlier bucket does, and Personal is
  chosen exactly when no keyword occurs at all.
\<close>

theorem fallback_categorization_buckets:
  "fallback_categorization ttl \<in>
     {(''Work'', [''work'', ''professional'']), (''Home'', [''home'', ''household'']),
      (''Health'', [''health'', ''wellness'']), (''Learning'', [''learning'', ''education'']),
      (''Personal'', [''personal'', ''general''])} \<and>
   fallback_categorization ttl = fallback_categorization (lower ttl) \<and>
   (fst (fallback_categorization ttl) = ''Work'' \<longleftrightarrow>
      (\<exists>w\<in>set work_words. contains w (lower ttl))) \<and>
   (fst (fallback_categorization ttl) = ''Home'' \<longleftrightarrow>
      \<not> (\<exists>w\<in>set work_words. contains w (lower ttl)) \<and>
      (\<exists>w\<in>set home_words. contains w (lower ttl))) \<and>
   (fst (fallback_categorization ttl) = ''Health'' \<longleftrightarrow>
      \<not> (\<exists>w\<in>set (work_words @ home_words). contains w (lower ttl)) \<and>
      (\<exists>w\<in>set health_words. contains w (lower ttl))) \<and>
   (fst (fallback_categorization ttl) = ''Learning'' \<longleftrightarrow>
      \<not> (\<exists>w\<in>set (work_words @ home_words @ health_words). contains w (lower ttl)) \<and>
      (\<exists>w\<in>set learning_words. contains w (lower ttl))) \<and>
   (fst (fallback_categorization ttl) = ''Personal'' \<longleftrightarrow>
      \<not> (\<exists>w\<in>set (work_words @ home_words @ health_words @ learning_words).
            contains w (lower ttl)))"
  unfolding fallback_categorization_def Let_def lower_idem any_word_in_iff
  by auto

text \<open>
  Claim C6 on a title with a learning keyword (read, book) and a work keyword
  (office): Work wins.
\<close>

theorem fallback_categorization_buckets_witness:
  "(\<exists>w\<in>set work_words. contains w (lower ''Read a book at the OFFICE'')) \<and>
   (\<exists>w\<in>set learning_words. contains w (lower ''Read a book at the OFFICE'')) \<and>
   fallback_categorization ''Read a book at the OFFICE'' = (''Work'', [''work'', ''professional''])"
proof -
  have w1: "\<exists>w\<in>set work_words. contains w (lower ''Read a book at the OFFICE'')"
    by code_simp
  have w2: "\<exists>w\<in>set learning_words. contains w (lower ''Read a book at the OFFICE'')"
    by code_simp
  note T = fallback_categorization_buckets [of "''Read a book at the OFFICE''"]
  from T w1 have f: "fst (fallback_categorization ''Read a book at the OFFICE'') = ''Work''"
    by blast
  from T have "fallback_categorization ''Read a book at the OFFICE'' \<in>
     {(''Work'', [''work'', ''professional'']), (''Home'', [''home'', ''household'']),
      (''Health'', [''health'', ''wellness'']), (''Learning'', [''learning'', ''education'']),
      (''Personal'', [''personal'', ''general''])}"
    by blast
  with f have "fallback_categorization ''Read a book at the OFFICE'' =
      (''Work'', [''work'', ''professional''])"
    by auto
  with w1 w2 show ?thesis by blast
qed

section \<open>Statistics\<close>





lemma stats_no_tasks:
  "stats fl u now [] =
     Inr \<lparr>total = 0, completed = 0, pending = 0, in_progress = 0, high_priority = 0,
          overdue = 0, completion_rate = 0\<rparr>"
  by (simp add: stats_def get_queryset_def Let_def)







section \<open>The fallback context analysis\<close>

text \<open>The tokens are exactly the maximal word runs of the text, in text order.\<close>

lemma word_runs_sound: "w \<in> set (word_runs s) \<Longrightarrow> maximal_word_run s w"
proof (induction s arbitrary: w rule: word_runs.induct)
  case 1
  then show ?case by simp
next
  case (2 c cs)
  show ?case
  proof (cases "is_word_char c")
    case False
    with 2 have "maximal_word_run cs w" by simp
    then obtain pre post where w: "w \<noteq> []" "list_all is_word_char w"
      and t: "cs = pre @ w @ post"
      and l: "pre = [] \<or> \<not> is_word_char (last pre)"
      and r: "post = [] \<or> \<not> is_word_char (hd post)"
      unfolding maximal_word_run_def by blast
    have "c # cs = (c # pre) @ w @ post" using t by simp
    moreover have "\<not> is_word_char (last (c # pre))" using l False by auto
    ultimately show ?thesis
      unfolding maximal_word_run_def using w r by blast
  next
    case True
    let ?d = "dropWhile is_word_char cs"
    from 2 True consider (first) "w = takeWhile is_word_char (c # cs)"
      | (later) "w \<in> set (word_runs ?d)" by auto
    then show ?thesis
    proof cases
      case first
      have "c # cs = [] @ w @ dropWhile is_word_char (c # cs)"
        unfolding first by simp
      moreover have "dropWhile is_word_char (c # cs) = [] \<or>
          \<not> is_word_char (hd (dropWhile is_word_char (c # cs)))"
        using hd_dropWhile [of is_word_char "c # cs"] by blast
      moreover have "w \<noteq> []" "list_all is_word_char w"
        using True first by (auto simp: list_all_iff dest: set_takeWhileD)
      ultimately show ?thesis
        unfolding maximal_word_run_def by blast
    next
      case later
      with 2 True have "maximal_word_run ?d w" by simp
      then obtain pre post where w: "w \<noteq> []" "list_all is_word_char w"
        and t: "?d = pre @ w @ post"
        and l: "pre = [] \<or> \<not> is_word_char (last pre)"
        and r: "post = [] \<or> \<not> is_word_char (hd post)"
        unfolding maximal_word_run_def by blast
      have "pre \<noteq> []"
      proof
        assume "pre = []"
        with t w have "?d \<noteq> []" "hd ?d = hd w" by auto
        moreover have "is_word_char (hd w)" using w by (cases w) auto
        ultimately show False using hd_dropWhile [of is_word_char cs] by simp
      qed
      with l have l': "\<not> is_word_char (last (c # takeWhile is_word_char cs @ pre))" by simp
      have "c # cs = (c # takeWhile is_word_char cs @ pre) @ w @ post"
        using t takeWhile_dropWhile_id [of is_word_char cs] by (metis append.assoc append_Cons)
      with l' w r show ?thesis
        unfolding maximal_word_run_def by blast
    qed
  qed
qed

lemma takeWhile_run:
  assumes "list_all P w" "post = [] \<or> \<not> P (hd post)"
  shows "takeWhile P (w @ post) = w"
proof -
  have "takeWhile P post = []" using assms(2) by (cases post) auto
  then show ?thesis using assms(1) by (simp add: list_all_iff takeWhile_append2)
qed

lemma word_runs_complete: "maximal_word_run s w \<Longrightarrow> w \<in> set (word_runs s)"
proof (induction s arbitrary: w rule: word_runs.induct)
  case 1
  then show ?case by (auto simp: maximal_word_run_def)
next
  case (2 c cs)
  from 2(3) obtain pre post where w: "w \<noteq> []" "list_all is_word_char w"
      and t: "c # cs = pre @ w @ post"
      and l: "pre = [] \<or> \<not> is_word_char (last pre)"
      and r: "post = [] \<or> \<not> is_word_char (hd post)"
    unfolding maximal_word_run_def by blast
  have hw: "is_word_char (hd w)" using w by (cases w) auto
  show ?case
  proof (cases "is_word_char c")
    case False
    have "pre \<noteq> []"
    proof
      assume "pre = []"
      with t w have "c = hd w" by (cases w) auto
      with hw False show False by simp
    qed
    then obtain pre' where p: "pre = c # pre'" using t by (cases pre) auto
    then have "cs = pre' @ w @ post" using t by simp
    moreover have "pre' = [] \<or> \<not> is_word_char (last pre')" using l p by auto
    ultimately have "maximal_word_run cs w"
      unfolding maximal_word_run_def using w r by blast
    with 2(2) False show ?thesis by simp
  next
    case True
    show ?thesis
    proof (cases "pre = []")
      case pre: True
      then have "takeWhile is_word_char (c # cs) = w"
        using t takeWhile_run [OF w(2) r] by simp
      then show ?thesis using True by auto
    next
      case pre: False
      with l have nl: "\<not> is_word_char (last pre)" by simp
      have lin: "last pre \<in> set pre" using pre by simp
      have d: "dropWhile is_word_char (c # cs) = dropWhile is_word_char pre @ w @ post"
        unfolding t using lin nl by (rule dropWhile_append1)
      have dne: "dropWhile is_word_char pre \<noteq> []"
        using lin nl by (auto simp: dropWhile_eq_Nil_conv)
      have "last (dropWhile is_word_char pre) = last pre"
        using dne takeWhile_dropWhile_id [of is_word_char pre] by (metis last_appendR)
      with nl have nl': "\<not> is_word_char (last (dropWhile is_word_char pre))" by simp
      from d True have "dropWhile is_word_char cs = dropWhile is_word_char pre @ w @ post"
        by simp
      with nl' have "maximal_word_run (dropWhile is_word_char cs) w"
        unfolding maximal_word_run_def using w r by blast
      with 2(1) True show ?thesis by simp
    qed
  qed
qed

lemma set_word_runs: "set (word_runs text) = {w. maximal_word_run text w}"
  using word_runs_sound word_runs_complete by blast

lemma word_runs_concat: "concat (word_runs s) = filter is_word_char s"
proof (induction s rule: word_runs.induct)
  case 1
  then show ?case by simp
next
  case (2 c cs)
  show ?case
  proof (cases "is_word_char c")
    case True
    have id: "filter is_word_char (takeWhile is_word_char cs) = takeWhile is_word_char cs"
      by (auto simp: filter_id_conv dest: set_takeWhileD)
    have "filter is_word_char cs =
        filter is_word_char (takeWhile is_word_char cs @ dropWhile is_word_char cs)"
      by simp
    also have "\<dots> = takeWhile is_word_char cs @ filter is_word_char (dropWhile is_word_char cs)"
      unfolding filter_append id ..
    finally have "filter is_word_char cs =
        takeWhile is_word_char cs @ concat (word_runs (dropWhile is_word_char cs))"
      using 2(1) True by simp
    then show ?thesis using True by simp
  next
    case False
    with 2 show ?thesis by simp
  qed
qed

lemma urgency_score_positive:
  "(urgency_score c > 0) = (\<exists>w\<in>set context_urgency_words. contains w (lower c))"
  by (auto simp: urgency_score_def sum_ones_length filter_empty_conv)

lemma set_context_keywords:
  "set (context_keywords c) =
     {w. maximal_word_run (lower c) w \<and> 4 \<le> length w \<and> w \<notin> set stop_words}"
  by (auto simp: context_keywords_def findall_words4_def set_word_runs)

lemma word_runs_gap:
  "list_all (\<lambda>c. \<not> is_word_char c) g \<Longrightarrow> word_runs (g @ s) = word_runs s"
  by (induction g) auto

lemma tokenization_Cons_gap:
  assumes "\<not> is_word_char c" "tokenization s ws"
  shows "tokenization (c # s) ws"
  using assms(2)
proof cases
  case gap
  with assms(1) show ?thesis by (auto intro: tokenization.gap)
next
  case (word g w rest ws')
  have "tokenization ((c # g) @ w @ rest) (w # ws')"
    using word assms(1) by (intro tokenization.word) auto
  with word show ?thesis by simp
qed

lemma tokenization_word_runs: "tokenization s (word_runs s)"
proof (induction s rule: word_runs.induct)
  case 1
  show ?case using tokenization.gap [of "[]"] by simp
next
  case (2 c cs)
  show ?case
  proof (cases "is_word_char c")
    case False
    with 2 show ?thesis by (simp add: tokenization_Cons_gap)
  next
    case True
    let ?w = "takeWhile is_word_char (c # cs)"
    let ?r = "dropWhile is_word_char cs"
    have "tokenization ([] @ ?w @ ?r) (?w # word_runs ?r)"
    proof (rule tokenization.word)
      show "list_all (\<lambda>c. \<not> is_word_char c) []" by simp
      show "?w \<noteq> []" using True by simp
      show "list_all is_word_char ?w" by (auto simp: list_all_iff dest: set_takeWhileD)
      show "?r = [] \<or> \<not> is_word_char (hd ?r)" using hd_dropWhile [of is_word_char cs] by blast
      show "tokenization ?r (word_runs ?r)" using 2(1) True by simp
    qed
    then show ?thesis using True by simp
  qed
qed

lemma dropWhile_run:
  assumes "list_all P w" "post = [] \<or> \<not> P (hd post)"
  shows "dropWhile P (w @ post) = post"
proof -
  have "dropWhile P post = post" using assms(2) by (cases post) auto
  then show ?thesis using assms(1) by (simp add: list_all_iff dropWhile_append2)
qed

lemma tokenization_unique: "tokenization s ws \<Longrightarrow> ws = word_runs s"
proof (induction rule: tokenization.induct)
  case (gap g)
  then show ?case using word_runs_gap [of g "[]"] by simp
next
  case (word g w rest ws)
  obtain c w' where w: "w = c # w'" using word(2) by (cases w) auto
  have c: "is_word_char c" and w': "list_all is_word_char w'" using word(3) w by auto
  have t: "takeWhile is_word_char (w @ rest) = w"
    using takeWhile_run [OF word(3) word(4)] .
  have d: "dropWhile is_word_char (w' @ rest) = rest"
    using dropWhile_run [OF w' word(4)] .
  have "word_runs (g @ w @ rest) = word_runs (w @ rest)"
    using word(1) by (rule word_runs_gap)
  also have "\<dots> = w # word_runs rest"
    using t d c unfolding w by simp
  finally show ?case using word.IH by simp
qed

lemma tokenization_iff: "tokenization s ws \<longleftrightarrow> ws = word_runs s"
  using tokenization_unique tokenization_word_runs by blast

lemma urgency_score_lexicon:
  "(urgency_score c > 0) = (\<exists>w\<in>analysis_lexicon. contains w (lower c))"
  by (auto simp: urgency_score_def sum_ones_length filter_empty_conv context_urgency_words_def
      analysis_lexicon_def)

lemma context_keywords_filter:
  "context_keywords c =
     filter (\<lambda>w. 4 \<le> length w \<and> w \<notin> analysis_stop_words) (word_runs (lower c))"
  by (simp add: context_keywords_def findall_words4_def stop_words_def analysis_stop_words_def
      conj_commute)

text \<open>
  Claim C7, as stated, fails on the priority label: "emergency" is a word of the
  urgency lexicon and occurs in the content, yet the label is "normal". The word list
  of the context analysis has seven words, without "emergency".
\<close>

theorem fallback_context_analysis_emergency:
  "''emergency'' \<in> urgency_lexicon \<and>
   contains ''emergency'' (lower ''Emergency at the plant'') \<and>
   dict_get (fallback_context_analysis ''Emergency at the plant'') ''priorities'' PNone =
     Inr (PList [PStr ''normal''])"
  by code_simp

text \<open>
  Claim C7, amended. For every content string, the fallback analysis takes the words
  of the lowercased content (\<open>tokenization\<close>, in text order, repeats included),
  keeps those of length at least 4 that are no stop word, and returns the first 5 of
  them as topics and the first 10 as keywords. The sentiment is "neutral", deadlines
  and action items are empty, and the one priority label is "high" if one of the
  seven words urgent, asap, immediately, deadline, due, important, critical occurs in
  the lowercased content, and "normal" otherwise.
\<close>

theorem fallback_context_analysis_fields:
  "(\<exists>ws. tokenization (lower c) ws) \<and>
   (\<forall>ws. tokenization (lower c) ws \<longrightarrow>
      fallback_context_analysis c =
        PDict [(''topics'',
                  PList (map PStr (take 5
                    (filter (\<lambda>w. 4 \<le> length w \<and> w \<notin> analysis_stop_words) ws)))),
               (''deadlines'', PList []),
               (''priorities'',
                  PList [PStr (if \<exists>w\<in>analysis_lexicon. contains w (lower c)
                               then ''high'' else ''normal'')]),
               (''sentiment'', PStr ''neutral''),
               (''action_items'', PList []),
               (''keywords'',
                  PList (map PStr (take 10
                    (filter (\<lambda>w. 4 \<le> length w \<and> w \<notin> analysis_stop_words) ws))))])"
proof (intro conjI allI impI)
  show "\<exists>ws. tokenization (lower c) ws"
    using tokenization_word_runs by blast
next
  fix ws
  assume "tokenization (lower c) ws"
  then have ws: "ws = word_runs (lower c)" by (rule tokenization_unique)
  show "fallback_context_analysis c =
        PDict [(''topics'',
                  PList (map PStr (take 5
                    (filter (\<lambda>w. 4 \<le> length w \<and> w \<notin> analysis_stop_words) ws)))),
               (''deadlines'', PList []),
               (''priorities'',
                  PList [PStr (if \<exists>w\<in>analysis_lexicon. contains w (lower c)
                               then ''high'' else ''normal'')]),
               (''sentiment'', PStr ''neutral''),
               (''action_items'', PList []),
               (''keywords'',
                  PList (map PStr (take 10
                    (filter (\<lambda>w. 4 \<le> length w \<and> w \<notin> analysis_stop_words) ws))))]"
    unfolding fallback_context_analysis_def urgency_score_lexicon context_keywords_filter ws
    by simp
qed

text \<open>
  Claim C7, amended, on a note of twenty words with a repeated word (send), stop words
  (this, that, with, from), a short word (the) and more than ten words left.
\<close>

theorem fallback_context_analysis_fields_witness:
  "tokenization (lower sample_note)
     [''urgent'', ''send'', ''this'', ''report'', ''then'', ''send'', ''that'', ''invoice'',
      ''with'', ''photos'', ''from'', ''monday'', ''before'', ''friday'', ''evening'', ''call'',
      ''maria'', ''about'', ''the'', ''budget''] \<and>
   (\<exists>w\<in>analysis_lexicon. contains w (lower sample_note)) \<and>
   fallback_context_analysis sample_note =
     PDict [(''topics'', PList [PStr ''urgent'', PStr ''send'', PStr ''report'', PStr ''then'',
                                PStr ''send'']),
            (''deadlines'', PList []),
            (''priorities'', PList [PStr ''high'']),
            (''sentiment'', PStr ''neutral''),
            (''action_items'', PList []),
            (''keywords'', PList [PStr ''urgent'', PStr ''send'', PStr ''report'', PStr ''then'',
                                  PStr ''send'', PStr ''invoice'', PStr ''photos'',
                                  PStr ''monday'', PStr ''before'', PStr ''friday''])]"
proof -
  let ?ws = "[''urgent'', ''send'', ''this'', ''report'', ''then'', ''send'', ''that'', ''invoice'',
      ''with'', ''photos'', ''from'', ''monday'', ''before'', ''friday'', ''evening'', ''call'',
      ''maria'', ''about'', ''the'', ''budget'']"
  have r: "word_runs (lower sample_note) = ?ws"
    by code_simp
  have tk: "tokenization (lower sample_note) ?ws"
    unfolding tokenization_iff r ..
  have u: "\<exists>w\<in>analysis_lexicon. contains w (lower sample_note)"
    by code_simp
  note T = fallback_context_analysis_fields [of sample_note]
  from T tk have "fallback_context_analysis sample_note =
        PDict [(''topics'',
                  PList (map PStr (take 5
                    (filter (\<lambda>w. 4 \<le> length w \<and> w \<notin> analysis_stop_words) ?ws)))),
               (''deadlines'', PList []),
               (''priorities'',
                  PList [PStr (if \<exists>w\<in>analysis_lexicon. contains w (lower sample_note)
                               then ''high'' else ''normal'')]),
               (''sentiment'', PStr ''neutral''),
               (''action_items'', PList []),
               (''keywords'',
                  PList (map PStr (take 10
                    (filter (\<lambda>w. 4 \<le> length w \<and> w \<notin> analysis_stop_words) ?ws))))]"
    by blast
  then have f: "fallback_context_analysis sample_note =
     PDict [(''topics'', PList [PStr ''urgent'', PStr ''send'', PStr ''report'', PStr ''then'',
                                PStr ''send'']),
            (''deadlines'', PList []),
            (''priorities'', PList [PStr ''high'']),
            (''sentiment'', PStr ''neutral''),
            (''action_items'', PList []),
            (''keywords'', PList [PStr ''urgent'', PStr ''send'', PStr ''report'', PStr ''then'',
                                  PStr ''send'', PStr ''invoice'', PStr ''photos'',
                                  PStr ''monday'', PStr ''before'', PStr ''friday''])]"
    using u by (simp add: analysis_stop_words_def)
  from tk u f show ?thesis by (intro conjI)
qed

text \<open>Letters beyond ASCII are word characters too, and are lowercased.\<close>

lemma context_keywords_latin1:
  "context_keywords (''Caf'' @ [CHR 0xC9] @ '' SOCIETY x'' @ [CHR 0xB2] @ ''yz:ab'') =
     [''caf'' @ [CHR 0xE9], ''society'', ''x'' @ [CHR 0xB2] @ ''yz'']"
  by code_simp

end
